theory Spec2Isabelle
  imports Main "HOL-Library.Word"
begin

section \<open>HemeWeb job model: \<^verbatim>\<open>src/jobs/models.py\<close>\<close>

unbundle bit_operations_syntax

subsection \<open>Python strings\<close>

text \<open>\<^verbatim>\<open>str(n)\<close> for a Python integer: decimal digits, with a leading minus sign.\<close>

fun str_nat :: "nat \<Rightarrow> string" where
  "str_nat n = (if n < 10 then [char_of (48 + n)]
                else str_nat (n div 10) @ [char_of (48 + n mod 10)])"

declare str_nat.simps [simp del]

definition str_int :: "int \<Rightarrow> string" where
  "str_int i = (if i < 0 then CHR ''-'' # str_nat (nat (- i)) else str_nat (nat i))"

text \<open>
  \<^verbatim>\<open>template.format(a, b, ...)\<close> for a template whose only fields are the automatic
  positional \<^verbatim>\<open>{}\<close>: each field is replaced by the next argument (already converted
  with \<^verbatim>\<open>str\<close>). Every template of the module has exactly as many fields as
  arguments; a field with no argument left (Python's IndexError) ends the result here.
\<close>

fun py_format :: "string \<Rightarrow> string list \<Rightarrow> string" where
  "py_format [] args = []"
| "py_format [c] args = [c]"
| "py_format (c # d # cs) args =
     (if c = CHR ''{'' \<and> d = CHR ''}''
      then (case args of [] \<Rightarrow> [] | a # as \<Rightarrow> a @ py_format cs as)
      else c # py_format (d # cs) args)"

text \<open>
  \<^verbatim>\<open>s.replace(old, new)\<close>: every non-overlapping occurrence of \<open>old\<close>, scanning from
  the left, is replaced by \<open>new\<close>. With an empty \<open>old\<close> Python inserts \<open>new\<close> before
  every character and at the end.
\<close>

function replace :: "string \<Rightarrow> string \<Rightarrow> string \<Rightarrow> string" where
  "replace s old new =
     (if old = [] then new @ concat (map (\<lambda>c. c # new) s)
      else if s = [] then []
      else if take (length old) s = old then new @ replace (drop (length old) s) old new
      else hd s # replace (tl s) old new)"
  by pat_completeness auto
termination
  by (relation "measure (\<lambda>(s, old, new). length s)") auto

declare replace.simps [simp del]

subsection \<open>Identifiers and paths\<close>

text \<open>
  The primary key is a \<^verbatim>\<open>uuid.UUID\<close>, a 128-bit integer. \<^verbatim>\<open>id.hex\<close> is its 32
  lower-case hexadecimal digits, \<^verbatim>\<open>str(id)\<close> the same digits grouped 8-4-4-4-12.
\<close>

type_synonym uuid = "128 word"

definition hex_digit :: "nat \<Rightarrow> char" where
  "hex_digit n = ''0123456789abcdef'' ! n"

definition uuid_hex :: "uuid \<Rightarrow> string" where
  "uuid_hex u = map (\<lambda>i. hex_digit (unat (drop_bit (4 * (31 - i)) u AND 15))) [0..<32]"

definition uuid_str :: "uuid \<Rightarrow> string" where
  "uuid_str u = (let h = uuid_hex u in
     take 8 h @ ''-'' @ take 4 (drop 8 h) @ ''-'' @ take 4 (drop 12 h) @ ''-'' @
     take 4 (drop 16 h) @ ''-'' @ drop 20 h)"

text \<open>
  \<^verbatim>\<open>os.path.join(a, *p)\<close> of \<^verbatim>\<open>posixpath\<close>: a component that starts with a slash
  discards what came before it; otherwise components are joined by one slash unless the
  path so far is empty or already ends with one.
\<close>

fun os_path_join :: "string \<Rightarrow> string list \<Rightarrow> string" where
  "os_path_join path [] = path"
| "os_path_join path (b # p) =
     os_path_join
       (if take 1 b = ''/'' then b
        else if path = [] then path @ b
        else if last path = CHR ''/'' then path @ b
        else path @ ''/'' @ b) p"

subsection \<open>The job record and the settings\<close>

text \<open>
  The fields of \<^verbatim>\<open>class Job(models.Model)\<close>. A \<^verbatim>\<open>FileField\<close> is represented by its
  \<^verbatim>\<open>.name\<close>, the empty string when blank. The status is the integer the source
  stores.
\<close>

record job =
  job_id :: uuid
  configuration_file :: string
  input_file :: string
  stl_file :: string
  profile_file :: string
  output_file :: string
  created :: nat
  updated :: nat
  container_image :: int
  instance_type :: int
  instance_count :: int
  status :: int

definition ADDED :: int where "ADDED = 1"
definition QUEUED :: int where "QUEUED = 2"
definition RUNNING :: int where "RUNNING = 10"
definition DONE :: int where "DONE = 3"
definition PREPROCESSING :: int where "PREPROCESSING = 4"
definition FAILED :: int where "FAILED = 0"

lemmas status_defs = ADDED_def QUEUED_def RUNNING_def DONE_def PREPROCESSING_def FAILED_def

text \<open>
  \<^verbatim>\<open>django.conf.settings\<close> is not part of the module: the values it reads are
  parameters of the model.
\<close>

record settings =
  JOB_FILES_UPLOAD_DIR :: string
  AWS_SECRET_ACCESS_KEY :: string
  AWS_ACCESS_KEY_ID :: string
  HEMEWEB_IMAGE_ID :: string
  HOST_IP :: string

definition job_directory_path :: "settings \<Rightarrow> job \<Rightarrow> string \<Rightarrow> string" where
  "job_directory_path st instance filename =
     os_path_join (JOB_FILES_UPLOAD_DIR st) [uuid_hex (job_id instance), ''inputs'', filename]"

definition get_job_directory_path :: "settings \<Rightarrow> job \<Rightarrow> string" where
  "get_job_directory_path st self =
     os_path_join (JOB_FILES_UPLOAD_DIR st) [uuid_hex (job_id self)]"

definition get_input_directory_path :: "settings \<Rightarrow> job \<Rightarrow> string" where
  "get_input_directory_path st self =
     os_path_join (get_job_directory_path st self) [''inputs'']"

definition get_log_directory_path :: "settings \<Rightarrow> job \<Rightarrow> string" where
  "get_log_directory_path st self =
     os_path_join (get_job_directory_path st self) [''logs'']"

definition get_result_directory_path :: "settings \<Rightarrow> job \<Rightarrow> string" where
  "get_result_directory_path st self =
     os_path_join (get_job_directory_path st self) [''result'']"

text \<open>
  \<^verbatim>\<open>get_result_extracted_directory_path\<close> calls itself on the same job before it
  joins anything. The call may not return, so the function is partial: \<open>None\<close> is
  "no value is ever returned".
\<close>

partial_function (option) get_result_extracted_directory_path ::
    "settings \<Rightarrow> job \<Rightarrow> string option" where
  "get_result_extracted_directory_path st self =
     Option.bind (get_result_extracted_directory_path st self)
       (\<lambda>p. Some (os_path_join p [''Extracted/*'']))"

definition get_output_path :: "settings \<Rightarrow> job \<Rightarrow> string" where
  "get_output_path st self =
     os_path_join (get_result_directory_path st self)
       [py_format ''{}.vtu'' [uuid_str (job_id self)]]"

definition get_packaged_output_path :: "settings \<Rightarrow> job \<Rightarrow> string" where
  "get_packaged_output_path st self =
     os_path_join (get_result_directory_path st self)
       [py_format ''{}.tar.gz'' [uuid_str (job_id self)]]"

definition get_log_file_path :: "settings \<Rightarrow> job \<Rightarrow> string \<Rightarrow> string" where
  "get_log_file_path st self log_type =
     os_path_join (get_log_directory_path st self) [log_type]"

definition get_instance_id :: "job \<Rightarrow> string option" where
  "get_instance_id self =
     (if instance_type self = 2 then Some ''c4.large''
      else if instance_type self = 4 then Some ''c4.xlarge''
      else if instance_type self = 8 then Some ''c4.2xlarge''
      else if instance_type self = 16 then Some ''c4.4xlarge''
      else None)"

definition get_core_count :: "job \<Rightarrow> int" where
  "get_core_count self = instance_count self * instance_type self"

text \<open>
  \<^verbatim>\<open>get_container_image_display\<close> is the accessor Django generates for a field with
  choices: the label of the stored value in \<^verbatim>\<open>CONTAINER_CHOICES\<close>, or the value itself
  when it is not one of the choices.
\<close>

definition get_container_image_display :: "job \<Rightarrow> string" where
  "get_container_image_display self =
     (if container_image self = 1 then ''seiryuz/hemelb-core:0.0.2''
      else if container_image self = 2 then ''seiryuz/hemelb-core:0.0.3''
      else str_int (container_image self))"

text \<open>\<^verbatim>\<open>"{}".format(x)\<close> of an optional string prints \<^verbatim>\<open>None\<close> for no value.\<close>

definition str_opt :: "string option \<Rightarrow> string" where
  "str_opt x = (case x of None \<Rightarrow> ''None'' | Some s \<Rightarrow> s)"

subsection \<open>The world outside the module\<close>

text \<open>
  Exceptions that can leave the functions of the module: a failed \<^verbatim>\<open>open\<close>, a save
  that Django rejects, and the interpreter's "maximum recursion depth exceeded".
\<close>

datatype error = IOError string | DatabaseError | ValueError | RecursionDepthExceeded

text \<open>The observable effects, in the order the code performs them.\<close>

datatype event =
    Opened string string
  | Saved uuid "string list option" int
  | Called string
  | CacheGet string
  | CacheSet string string nat

text \<open>
  The job table as the task's database connection sees it (one row per job id), the
  file system, the cache backend (content and the timeout it was stored with), the
  trace of effects, and what the environment decides: the exit code of each external
  command, whether a file can be opened for writing, and the clock.

  The connection's view is not yet the durable store: \<open>committed\<close> is the table as
  committed, which is what another connection reads and what is left after an
  interruption. \<open>atomic_depth\<close> counts the \<^verbatim>\<open>transaction.atomic\<close> blocks open on the
  connection; it is positive at the start of a task when the caller runs the task
  inside a transaction of its own (\<^verbatim>\<open>enqueue_job(async=False)\<close> calls \<^verbatim>\<open>run_job\<close>
  inline). \<open>launches\<close> lists every external command launched, with the table as
  committed at the moment of the launch.
\<close>

record world =
  db :: "uuid \<rightharpoonup> job"
  files :: "string \<rightharpoonup> string"
  cache :: "string \<rightharpoonup> string \<times> nat"
  trace :: "event list"
  exit_code :: "string \<Rightarrow> int"
  can_create :: "string \<Rightarrow> bool"
  now :: nat
  committed :: "uuid \<rightharpoonup> job"
  atomic_depth :: nat
  launches :: "(string \<times> (uuid \<rightharpoonup> job)) list"

text \<open>
  \<^verbatim>\<open>subprocess.call(command, shell=True)\<close> waits for the command and returns its exit
  code; it does not raise on a non-zero exit.
\<close>

definition subprocess_call :: "string \<Rightarrow> world \<Rightarrow> int \<times> world" where
  "subprocess_call command w =
     (exit_code w command,
      w\<lparr>trace := trace w @ [Called command],
        launches := launches w @ [(command, committed w)]\<rparr>)"

text \<open>\<^verbatim>\<open>open(path, 'w')\<close> creates or truncates the file, or raises.\<close>

definition open_w :: "string \<Rightarrow> world \<Rightarrow> error + world" where
  "open_w path w =
     (if can_create w path
      then Inr (w\<lparr>files := (files w)(path \<mapsto> []), trace := trace w @ [Opened path ''w'']\<rparr>)
      else Inl (IOError path))"

text \<open>\<^verbatim>\<open>open(path, 'r')\<close> followed by \<^verbatim>\<open>read()\<close>: the whole content, or raises.\<close>

definition open_read :: "string \<Rightarrow> world \<Rightarrow> error + string \<times> world" where
  "open_read path w =
     (case files w path of
        None \<Rightarrow> Inl (IOError path)
      | Some content \<Rightarrow> Inr (content, w\<lparr>trace := trace w @ [Opened path ''r'']\<rparr>))"

definition cache_get :: "string \<Rightarrow> world \<Rightarrow> string option \<times> world" where
  "cache_get key w = (map_option fst (cache w key), w\<lparr>trace := trace w @ [CacheGet key]\<rparr>)"

definition cache_set :: "string \<Rightarrow> string \<Rightarrow> nat \<Rightarrow> world \<Rightarrow> world" where
  "cache_set key v timeout w =
     w\<lparr>cache := (cache w)(key \<mapsto> (v, timeout)), trace := trace w @ [CacheSet key v timeout]\<rparr>"

text \<open>
  Transactions of Django. Outside every \<^verbatim>\<open>atomic\<close> block the connection is in
  autocommit mode and a write is committed at once. Inside a block a write is seen by
  the connection only; leaving the outermost block commits what the connection sees,
  leaving an inner block (a savepoint) commits nothing.
\<close>

definition write_row :: "uuid \<Rightarrow> job \<Rightarrow> world \<Rightarrow> world" where
  "write_row u row w =
     (if atomic_depth w = 0
      then w\<lparr>db := (db w)(u \<mapsto> row), committed := (committed w)(u \<mapsto> row)\<rparr>
      else w\<lparr>db := (db w)(u \<mapsto> row)\<rparr>)"

definition atomic_enter :: "world \<Rightarrow> world" where
  "atomic_enter w = w\<lparr>atomic_depth := Suc (atomic_depth w)\<rparr>"

definition atomic_exit :: "world \<Rightarrow> world" where
  "atomic_exit w =
     (if atomic_depth w - 1 = 0
      then w\<lparr>atomic_depth := 0, committed := db w\<rparr>
      else w\<lparr>atomic_depth := atomic_depth w - 1\<rparr>)"

text \<open>
  \<^verbatim>\<open>Model.save\<close> of Django. With \<^verbatim>\<open>update_fields\<close> it raises when a name is not a
  column, updates the named columns of the existing row from the instance, and raises
  when there is no row; \<^verbatim>\<open>updated\<close> (\<^verbatim>\<open>auto_now\<close>) is refreshed only when it is
  among the fields written. Without \<^verbatim>\<open>update_fields\<close> it writes every column,
  inserting the row when it is missing (\<^verbatim>\<open>created\<close> is \<^verbatim>\<open>auto_now_add\<close>).
\<close>

definition column_names :: "string list" where
  "column_names =
     [''configuration_file'', ''input_file'', ''stl_file'', ''profile_file'', ''output_file'',
      ''created'', ''updated'', ''container_image'', ''instance_type'', ''instance_count'',
      ''status'']"

definition copy_field :: "string \<Rightarrow> job \<Rightarrow> job \<Rightarrow> job option" where
  "copy_field name inst row =
     (if name = ''status'' then Some (row\<lparr>status := status inst\<rparr>)
      else if name = ''configuration_file'' then Some (row\<lparr>configuration_file := configuration_file inst\<rparr>)
      else if name = ''input_file'' then Some (row\<lparr>input_file := input_file inst\<rparr>)
      else if name = ''stl_file'' then Some (row\<lparr>stl_file := stl_file inst\<rparr>)
      else if name = ''profile_file'' then Some (row\<lparr>profile_file := profile_file inst\<rparr>)
      else if name = ''output_file'' then Some (row\<lparr>output_file := output_file inst\<rparr>)
      else if name = ''created'' then Some (row\<lparr>created := created inst\<rparr>)
      else if name = ''updated'' then Some (row\<lparr>updated := updated inst\<rparr>)
      else if name = ''container_image'' then Some (row\<lparr>container_image := container_image inst\<rparr>)
      else if name = ''instance_type'' then Some (row\<lparr>instance_type := instance_type inst\<rparr>)
      else if name = ''instance_count'' then Some (row\<lparr>instance_count := instance_count inst\<rparr>)
      else None)"

fun copy_fields :: "string list \<Rightarrow> job \<Rightarrow> job \<Rightarrow> job option" where
  "copy_fields [] inst row = Some row"
| "copy_fields (name # names) inst row =
     (case copy_field name inst row of
        None \<Rightarrow> None
      | Some row' \<Rightarrow> copy_fields names inst row')"

definition save :: "string list option \<Rightarrow> job \<Rightarrow> world \<Rightarrow> error + job \<times> world" where
  "save update_fields self w =
     (case update_fields of
        None \<Rightarrow>
          (let self' = self\<lparr>updated := now w,
                              created := (if job_id self \<in> dom (db w) then created self else now w)\<rparr>
           in Inr (self', (write_row (job_id self) self' w)
                            \<lparr>trace := trace w @ [Saved (job_id self) None (status self')]\<rparr>))
      | Some names \<Rightarrow>
          (if names = [] then Inr (self, w)
           else if filter (\<lambda>name. name \<notin> set column_names) names \<noteq> [] then Inl ValueError
           else
             (let self' = (if ''updated'' \<in> set names then self\<lparr>updated := now w\<rparr> else self)
              in case db w (job_id self) of
                   None \<Rightarrow> Inl DatabaseError
                 | Some row \<Rightarrow>
                     (case copy_fields names self' row of
                        None \<Rightarrow> Inl ValueError
                      | Some row' \<Rightarrow>
                          Inr (self', (write_row (job_id self) row' w)
                                         \<lparr>trace := trace w @ [Saved (job_id self) (Some names) (status self')]\<rparr>)))))"

subsection \<open>The background tasks\<close>

text \<open>
  A task returns the exception that left it (\<open>None\<close> when it returned normally), the job
  instance as it last was in memory, and the world.
\<close>

type_synonym outcome = "error option \<times> job \<times> world"

definition setup_command :: "job \<Rightarrow> string" where
  "setup_command job_instance =
     py_format ''/var/src/hemelb/virtualenv/bin/python     /var/src/hemelb/Tools/setuptool/scripts/hemelb-setup-nogui     --stl {} {} ''
       [stl_file job_instance, profile_file job_instance]"

definition run_setup :: "job \<Rightarrow> world \<Rightarrow> outcome" where
  "run_setup job_instance w =
     (let command = setup_command job_instance;
          (completed, w1) = subprocess_call command w;
          job_instance1 =
            (if completed = 0
             then job_instance
                    \<lparr>configuration_file := replace (stl_file job_instance) ''.stl'' ''.xml'',
                     input_file := replace (stl_file job_instance) ''.stl'' ''.gmy'',
                     status := ADDED\<rparr>
             else job_instance\<lparr>status := FAILED\<rparr>)
      in case save None job_instance1 w1 of
           Inl e \<Rightarrow> (Some e, job_instance1, w1)
         | Inr (job_instance2, w2) \<Rightarrow> (None, job_instance2, w2))"

definition provision_command :: "settings \<Rightarrow> job \<Rightarrow> string" where
  "provision_command st job_instance =
     py_format ''export ANSIBLE_HOST_KEY_CHECKING=False;         export AWS_SECRET_ACCESS_KEY={};         export AWS_ACCESS_KEY_ID={};         /var/www/hemeweb/virtualenv/bin/ansible-playbook         -u ubuntu         --extra-vars 'image={} master_ip={} worker_node_count={}          instance_tags={} input={} output={}         worker_instance_type={} log_file={} core_count={} container_image={}'         jobs/scripts/aws_ec2.yml        ''
       [AWS_SECRET_ACCESS_KEY st,
        AWS_ACCESS_KEY_ID st,
        HEMEWEB_IMAGE_ID st,
        HOST_IP st,
        str_int (instance_count job_instance),
        py_format ''job-{}'' [uuid_str (job_id job_instance)],
        configuration_file job_instance,
        get_result_directory_path st job_instance,
        str_opt (get_instance_id job_instance),
        get_log_file_path st job_instance ''hemelb'',
        str_int (get_core_count job_instance),
        get_container_image_display job_instance]"

definition vtu_command :: "settings \<Rightarrow> job \<Rightarrow> string" where
  "vtu_command st job_instance =
     py_format ''/var/src/hemelb/virtualenv/bin/python         /var/src/hemelb/Tools/hemeTools/converters/GmyUnstructuredGridReader.py         {} {} ''
       [configuration_file job_instance, get_output_path st job_instance]"

definition extracted_command :: "settings \<Rightarrow> job \<Rightarrow> string \<Rightarrow> string" where
  "extracted_command st job_instance extracted =
     py_format ''/var/src/hemelb/virtualenv/bin/python         /var/src/hemelb/Tools/hemeTools/converters/ExtractedPropertyUnstructuredGridReader.py         {} {} ''
       [get_output_path st job_instance, extracted]"

text \<open>Set a status and persist it, then leave the task: the three failure exits and the last two lines of \<^verbatim>\<open>run_job\<close>.\<close>

definition set_status_and_save :: "int \<Rightarrow> string list option \<Rightarrow> job \<Rightarrow> world \<Rightarrow> outcome" where
  "set_status_and_save s update_fields job_instance w =
     (let job_instance1 = job_instance\<lparr>status := s\<rparr>
      in case save update_fields job_instance1 w of
           Inl e \<Rightarrow> (Some e, job_instance1, w)
         | Inr (job_instance2, w1) \<Rightarrow> (None, job_instance2, w1))"

text \<open>
  In \<^verbatim>\<open>run_job\<close> the save of Running is the body of a \<^verbatim>\<open>transaction.atomic\<close>
  block. When the save raises, the block undoes what it wrote, which is nothing, and
  the exception leaves the task.
\<close>

definition run_job :: "settings \<Rightarrow> job \<Rightarrow> world \<Rightarrow> outcome" where
  "run_job st job_instance w =
     (let command = provision_command st job_instance
      in case open_w (get_log_file_path st job_instance ''stdout'') w of
           Inl e \<Rightarrow> (Some e, job_instance, w)
         | Inr w1 \<Rightarrow>
       (case open_w (get_log_file_path st job_instance ''stderr'') w1 of
           Inl e \<Rightarrow> (Some e, job_instance, w1)
         | Inr w2 \<Rightarrow>
       (let job_instance1 = job_instance\<lparr>status := RUNNING\<rparr>
        in case save (Some [''status'']) job_instance1 (atomic_enter w2) of
             Inl e \<Rightarrow> (Some e, job_instance1, w2)
           | Inr (job_instance2, w3') \<Rightarrow>
       (let w3 = atomic_exit w3';
            (completed, w4) = subprocess_call command w3
        in if completed \<noteq> 0
           then set_status_and_save FAILED (Some [''status'']) job_instance2 w4
           else
       (let command = vtu_command st job_instance2;
            (completed, w5) = subprocess_call command w4
        in if completed = 0
           then set_status_and_save FAILED (Some [''status'']) job_instance2 w5
           else
       (case get_result_extracted_directory_path st job_instance2 of
          None \<Rightarrow> (Some RecursionDepthExceeded, job_instance2, w5)
        | Some extracted \<Rightarrow>
       (let command = extracted_command st job_instance2 extracted;
            (completed, w6) = subprocess_call command w5
        in if completed = 0
           then set_status_and_save FAILED (Some [''status'']) job_instance2 w6
           else set_status_and_save DONE None job_instance2 w6)))))))"

subsection \<open>The log cache\<close>

definition get_output :: "settings \<Rightarrow> job \<Rightarrow> string \<Rightarrow> world \<Rightarrow> (error + string) \<times> world" where
  "get_output st self log_type w =
     (let key = py_format ''{}:log:{}'' [uuid_hex (job_id self), log_type];
          (output, w1) = cache_get key w
      in case output of
           Some cached \<Rightarrow> (Inr cached, w1)
         | None \<Rightarrow>
             (case open_read (get_log_file_path st self log_type) w1 of
                Inl e \<Rightarrow> (Inl e, w1)
              | Inr (content, w2) \<Rightarrow>
                  (if status self \<noteq> DONE \<and> status self \<noteq> FAILED
                   then (Inr content, cache_set key content 5 w2)
                   else (Inr content, cache_set key content 5000 w2))))"

subsection \<open>Observing an execution\<close>

text \<open>The three components of a task's outcome.\<close>

definition raised :: "outcome \<Rightarrow> error option" where
  "raised r = fst r"

definition final_job :: "outcome \<Rightarrow> job" where
  "final_job r = fst (snd r)"

definition final_world :: "outcome \<Rightarrow> world" where
  "final_world r = snd (snd r)"

text \<open>The effects a task performed, in order, when started in world \<open>w\<close>.\<close>

definition effects :: "world \<Rightarrow> outcome \<Rightarrow> event list" where
  "effects w r = drop (length (trace w)) (trace (final_world r))"

text \<open>The status stored for a job id, as the task's connection sees it.\<close>

definition persisted :: "uuid \<Rightarrow> world \<Rightarrow> int option" where
  "persisted u w = map_option status (db w u)"

text \<open>
  The status of a job id in the durable store: in the table as committed at the end of
  a task, and in the table as committed at each launch of an external command by the
  task, in order.
\<close>

definition durable_status :: "uuid \<Rightarrow> world \<Rightarrow> int option" where
  "durable_status u w = map_option status (committed w u)"

definition launch_statuses :: "uuid \<Rightarrow> world \<Rightarrow> outcome \<Rightarrow> (string \<times> int option) list" where
  "launch_statuses u w r =
     map (\<lambda>(command, table). (command, map_option status (table u)))
       (drop (length (launches w)) (launches (final_world r)))"

text \<open>
  The stored status after a sequence of effects, from the stored status before it:
  only a save that writes the status column changes it. A task interrupted after a
  prefix of its effects leaves the store as that prefix made it.
\<close>

fun writes_status :: "string list option \<Rightarrow> bool" where
  "writes_status None = True"
| "writes_status (Some names) = (''status'' \<in> set names)"

fun replay_status :: "uuid \<Rightarrow> event list \<Rightarrow> int option \<Rightarrow> int option" where
  "replay_status u [] s0 = s0"
| "replay_status u (Saved u' names s # evs) s0 =
     replay_status u evs (if u' = u \<and> writes_status names then Some s else s0)"
| "replay_status u (Opened path mode # evs) s0 = replay_status u evs s0"
| "replay_status u (Called command # evs) s0 = replay_status u evs s0"
| "replay_status u (CacheGet key # evs) s0 = replay_status u evs s0"
| "replay_status u (CacheSet key v timeout # evs) s0 = replay_status u evs s0"

text \<open>A save that stores one of the two terminal statuses.\<close>

fun terminal_write :: "event \<Rightarrow> bool" where
  "terminal_write (Saved u names s) = (writes_status names \<and> (s = DONE \<or> s = FAILED))"
| "terminal_write (Opened path mode) = False"
| "terminal_write (Called command) = False"
| "terminal_write (CacheGet key) = False"
| "terminal_write (CacheSet key v timeout) = False"

subsection \<open>A concrete scenario\<close>

text \<open>
  The scenario of the specification: a job just created, with \<^verbatim>\<open>foo.stl\<close> and
  \<^verbatim>\<open>foo.pr2\<close> uploaded, stored in the database; every file can be created and every
  external command exits with code 0. The task runs on the background worker, outside
  any transaction.
\<close>

definition example_settings :: settings where
  "example_settings =
     \<lparr>JOB_FILES_UPLOAD_DIR = ''/data/jobs'', AWS_SECRET_ACCESS_KEY = ''secret'',
      AWS_ACCESS_KEY_ID = ''key'', HEMEWEB_IMAGE_ID = ''ami-1'', HOST_IP = ''10.0.0.1''\<rparr>"

definition example_job :: job where
  "example_job =
     \<lparr>job_id = 1, configuration_file = [], input_file = [], stl_file = ''foo.stl'',
      profile_file = ''foo.pr2'', output_file = [], created = 0, updated = 0,
      container_image = 1, instance_type = 2, instance_count = 1, status = ADDED\<rparr>"

definition example_world :: world where
  "example_world =
     \<lparr>db = [1 \<mapsto> example_job], files = Map.empty, cache = Map.empty, trace = [],
      exit_code = (\<lambda>command. 0), can_create = (\<lambda>path. True), now = 7,
      committed = [1 \<mapsto> example_job], atomic_depth = 0, launches = []\<rparr>"

text \<open>Variations of the scenario: the job already finished; a geometry file whose name
  holds \<^verbatim>\<open>.stl\<close> twice; every command failing with exit code 1; the empty content
  of the \<^verbatim>\<open>stdout\<close> log already in the cache; the \<^verbatim>\<open>stdout\<close> log on disk.\<close>

definition finished_job :: job where
  "finished_job = example_job\<lparr>status := DONE\<rparr>"

definition finished_world :: world where
  "finished_world =
     example_world\<lparr>db := [1 \<mapsto> finished_job], committed := [1 \<mapsto> finished_job]\<rparr>"

definition dotted_job :: job where
  "dotted_job = example_job\<lparr>stl_file := ''model.stl.v2.stl''\<rparr>"

definition failing_world :: world where
  "failing_world = example_world\<lparr>exit_code := (\<lambda>command. 1)\<rparr>"

definition cached_world :: world where
  "cached_world =
     example_world\<lparr>cache := [py_format ''{}:log:{}'' [uuid_hex 1, ''stdout''] \<mapsto> ([], 5)]\<rparr>"

definition logged_world :: world where
  "logged_world =
     example_world
       \<lparr>files := [get_log_file_path example_settings example_job ''stdout'' \<mapsto> ''started'']\<rparr>"

text \<open>The scenario with the task called inline by a caller that holds a transaction.\<close>

definition transaction_world :: world where
  "transaction_world = example_world\<lparr>atomic_depth := 1\<rparr>"

section \<open>Properties\<close>

subsection \<open>Path resolvers\<close>

lemma extracted_path_not_some:
  "get_result_extracted_directory_path st self = Some y \<Longrightarrow> False"
  by (erule get_result_extracted_directory_path.raw_induct [where P = "\<lambda>_ _ _. False", rotated])
     (auto simp: bind_eq_Some_conv)

lemma extracted_path_never_returns: "get_result_extracted_directory_path st self = None"
  using extracted_path_not_some [of st self]
  by (cases "get_result_extracted_directory_path st self") auto

text \<open>
  The seven resolvers that do return depend on the job through its id only (and on the
  upload directory of the settings, and the log type).
\<close>

lemma path_resolvers_by_id:
  assumes "job_id a = job_id b"
  shows "get_job_directory_path st a = get_job_directory_path st b"
    and "get_input_directory_path st a = get_input_directory_path st b"
    and "get_log_directory_path st a = get_log_directory_path st b"
    and "get_result_directory_path st a = get_result_directory_path st b"
    and "get_output_path st a = get_output_path st b"
    and "get_packaged_output_path st a = get_packaged_output_path st b"
    and "get_log_file_path st a t = get_log_file_path st b t"
  using assms
  by (simp_all add: get_job_directory_path_def get_input_directory_path_def
      get_log_directory_path_def get_result_directory_path_def get_output_path_def
      get_packaged_output_path_def get_log_file_path_def
      del: os_path_join.simps py_format.simps)

text \<open>
  C8. Every path resolver is claimed to terminate and return a path. One of them does
  not: \<^verbatim>\<open>get_result_extracted_directory_path\<close> calls itself before doing anything
  else, so for every job (and every setting) it never returns a path.
\<close>

theorem get_result_extracted_directory_path_diverges:
  "get_result_extracted_directory_path st self = None"
  by (rule extracted_path_never_returns)

subsection \<open>Instance types\<close>

text \<open>
  C10. \<^verbatim>\<open>get_instance_id\<close> maps the instance types 2, 4, 8 and 16 to \<^verbatim>\<open>c4.large\<close>,
  \<^verbatim>\<open>c4.xlarge\<close>, \<^verbatim>\<open>c4.2xlarge\<close> and \<^verbatim>\<open>c4.4xlarge\<close>, and returns no value exactly
  when the instance type is none of these four.
\<close>

theorem get_instance_id_table:
  "(instance_type self = 2 \<longrightarrow> get_instance_id self = Some ''c4.large'') \<and>
   (instance_type self = 4 \<longrightarrow> get_instance_id self = Some ''c4.xlarge'') \<and>
   (instance_type self = 8 \<longrightarrow> get_instance_id self = Some ''c4.2xlarge'') \<and>
   (instance_type self = 16 \<longrightarrow> get_instance_id self = Some ''c4.4xlarge'') \<and>
   (get_instance_id self = None \<longleftrightarrow> instance_type self \<notin> {2, 4, 8, 16})"
  by (simp add: get_instance_id_def)

theorem get_instance_id_table_witness:
  "instance_type example_job = 2 \<and>
   get_instance_id example_job = Some ''c4.large'' \<and>
   instance_type (example_job\<lparr>instance_type := 3\<rparr>) \<notin> {2, 4, 8, 16} \<and>
   get_instance_id (example_job\<lparr>instance_type := 3\<rparr>) = None"
  using get_instance_id_table [of example_job]
    get_instance_id_table [of "example_job\<lparr>instance_type := 3\<rparr>"]
  by (simp add: example_job_def)

subsection \<open>The tasks, path by path\<close>

text \<open>
  What the two kinds of save of the module do, and the tasks written out as one
  case distinction over what the environment decides.
\<close>

lemma save_status_only:
  "save (Some [''status'']) j w =
     (case db w (job_id j) of
        None \<Rightarrow> Inl DatabaseError
      | Some row \<Rightarrow>
          Inr (j, (write_row (job_id j) (row\<lparr>status := status j\<rparr>) w)
                    \<lparr>trace := trace w @ [Saved (job_id j) (Some [''status'']) (status j)]\<rparr>))"
  by (simp add: save_def copy_field_def column_names_def split: option.splits)

lemma save_all_fields:
  "save None j w =
     Inr (j\<lparr>updated := now w,
             created := (if job_id j \<in> dom (db w) then created j else now w)\<rparr>,
          (write_row (job_id j)
              (j\<lparr>updated := now w,
                 created := (if job_id j \<in> dom (db w) then created j else now w)\<rparr>) w)
            \<lparr>trace := trace w @ [Saved (job_id j) None (status j)]\<rparr>)"
  by (simp add: save_def Let_def)

lemma get_log_file_path_status [simp]:
  "get_log_file_path st (j\<lparr>status := s\<rparr>) t = get_log_file_path st j t"
  by (simp add: get_log_file_path_def get_log_directory_path_def get_job_directory_path_def
      del: os_path_join.simps)

lemma get_output_path_status [simp]:
  "get_output_path st (j\<lparr>status := s\<rparr>) = get_output_path st j"
  by (simp add: get_output_path_def get_result_directory_path_def get_job_directory_path_def
      del: os_path_join.simps py_format.simps)

lemma vtu_command_status [simp]: "vtu_command st (j\<lparr>status := s\<rparr>) = vtu_command st j"
  by (simp add: vtu_command_def del: py_format.simps)

lemma run_job_eq:
  "run_job st j w =
     (let p1 = get_log_file_path st j ''stdout'';
          p2 = get_log_file_path st j ''stderr'';
          u = job_id j;
          c1 = provision_command st j;
          c2 = vtu_command st j;
          fs = (files w)(p1 \<mapsto> [], p2 \<mapsto> []);
          running = Saved u (Some [''status'']) RUNNING;
          failed = Saved u (Some [''status'']) FAILED
      in if \<not> can_create w p1 then (Some (IOError p1), j, w)
         else if \<not> can_create w p2
         then (Some (IOError p2), j,
               w\<lparr>files := (files w)(p1 \<mapsto> []), trace := trace w @ [Opened p1 ''w'']\<rparr>)
         else case db w u of
           None \<Rightarrow> (Some DatabaseError, j\<lparr>status := RUNNING\<rparr>,
                     w\<lparr>files := fs, trace := trace w @ [Opened p1 ''w'', Opened p2 ''w'']\<rparr>)
         | Some row \<Rightarrow>
            (let at_launch = (if atomic_depth w = 0
                              then (db w)(u \<mapsto> row\<lparr>status := RUNNING\<rparr>) else committed w);
                 at_failure = (if atomic_depth w = 0
                               then (db w)(u \<mapsto> row\<lparr>status := FAILED\<rparr>) else committed w)
             in if exit_code w c1 \<noteq> 0
             then (None, j\<lparr>status := FAILED\<rparr>,
                   w\<lparr>files := fs, db := (db w)(u \<mapsto> row\<lparr>status := FAILED\<rparr>),
                     committed := at_failure,
                     launches := launches w @ [(c1, at_launch)],
                     trace := trace w @ [Opened p1 ''w'', Opened p2 ''w'', running, Called c1, failed]\<rparr>)
             else if exit_code w c2 = 0
             then (None, j\<lparr>status := FAILED\<rparr>,
                   w\<lparr>files := fs, db := (db w)(u \<mapsto> row\<lparr>status := FAILED\<rparr>),
                     committed := at_failure,
                     launches := launches w @ [(c1, at_launch), (c2, at_launch)],
                     trace := trace w @ [Opened p1 ''w'', Opened p2 ''w'', running, Called c1, Called c2, failed]\<rparr>)
             else (Some RecursionDepthExceeded, j\<lparr>status := RUNNING\<rparr>,
                   w\<lparr>files := fs, db := (db w)(u \<mapsto> row\<lparr>status := RUNNING\<rparr>),
                     committed := at_launch,
                     launches := launches w @ [(c1, at_launch), (c2, at_launch)],
                     trace := trace w @ [Opened p1 ''w'', Opened p2 ''w'', running, Called c1, Called c2]\<rparr>)))"
proof (cases "atomic_depth w = 0")
  case True
  then show ?thesis
    by (simp add: run_job_def open_w_def save_status_only subprocess_call_def
        set_status_and_save_def extracted_path_never_returns Let_def
        atomic_enter_def atomic_exit_def write_row_def
        split: option.splits)
next
  case False
  then show ?thesis
    by (simp add: run_job_def open_w_def save_status_only subprocess_call_def
        set_status_and_save_def extracted_path_never_returns Let_def
        atomic_enter_def atomic_exit_def write_row_def
        split: option.splits)
qed

text \<open>The six shapes of an execution of \<^verbatim>\<open>run_job\<close>.\<close>

lemma run_job_effects:
  "effects w (run_job st j w) =
     (let p1 = get_log_file_path st j ''stdout'';
          p2 = get_log_file_path st j ''stderr'';
          u = job_id j;
          c1 = provision_command st j;
          c2 = vtu_command st j;
          running = Saved u (Some [''status'']) RUNNING;
          failed = Saved u (Some [''status'']) FAILED
      in if \<not> can_create w p1 then []
         else if \<not> can_create w p2 then [Opened p1 ''w'']
         else if db w u = None then [Opened p1 ''w'', Opened p2 ''w'']
         else if exit_code w c1 \<noteq> 0
           then [Opened p1 ''w'', Opened p2 ''w'', running, Called c1, failed]
         else if exit_code w c2 = 0
           then [Opened p1 ''w'', Opened p2 ''w'', running, Called c1, Called c2, failed]
         else [Opened p1 ''w'', Opened p2 ''w'', running, Called c1, Called c2])"
  by (simp add: run_job_eq effects_def final_world_def Let_def split: option.splits)

lemma run_job_persisted:
  "persisted (job_id j) (final_world (run_job st j w)) =
     replay_status (job_id j) (effects w (run_job st j w)) (persisted (job_id j) w)"
  by (simp add: run_job_effects Let_def)
     (simp add: run_job_eq persisted_def final_world_def Let_def split: option.splits)

lemma run_setup_eq:
  "run_setup j w =
     (let j1 = (if exit_code w (setup_command j) = 0
                then j\<lparr>configuration_file := replace (stl_file j) ''.stl'' ''.xml'',
                       input_file := replace (stl_file j) ''.stl'' ''.gmy'',
                       status := ADDED\<rparr>
                else j\<lparr>status := FAILED\<rparr>);
          j2 = j1\<lparr>updated := now w,
                   created := (if job_id j \<in> dom (db w) then created j else now w)\<rparr>
      in (None, j2,
          w\<lparr>db := (db w)(job_id j \<mapsto> j2),
            committed := (if atomic_depth w = 0 then (committed w)(job_id j \<mapsto> j2)
                          else committed w),
            launches := launches w @ [(setup_command j, committed w)],
            trace := trace w @ [Called (setup_command j), Saved (job_id j) None (status j1)]\<rparr>))"
  by (simp add: run_setup_def subprocess_call_def save_all_fields write_row_def Let_def)

subsection \<open>The run pipeline\<close>

lemma example_job_id [simp]: "job_id example_job = 1"
  by (simp add: example_job_def)

lemma run_job_example:
  "run_job example_settings example_job example_world =
     (None, example_job\<lparr>status := FAILED\<rparr>,
      example_world
        \<lparr>files := [get_log_file_path example_settings example_job ''stdout'' \<mapsto> [],
                    get_log_file_path example_settings example_job ''stderr'' \<mapsto> []],
         db := [1 \<mapsto> example_job\<lparr>status := FAILED\<rparr>],
         committed := [1 \<mapsto> example_job\<lparr>status := FAILED\<rparr>],
         launches :=
           [(provision_command example_settings example_job,
             [1 \<mapsto> example_job\<lparr>status := RUNNING\<rparr>]),
            (vtu_command example_settings example_job,
             [1 \<mapsto> example_job\<lparr>status := RUNNING\<rparr>])],
         trace :=
           [Opened (get_log_file_path example_settings example_job ''stdout'') ''w'',
            Opened (get_log_file_path example_settings example_job ''stderr'') ''w'',
            Saved 1 (Some [''status'']) RUNNING,
            Called (provision_command example_settings example_job),
            Called (vtu_command example_settings example_job),
            Saved 1 (Some [''status'']) FAILED]\<rparr>)"
  by (simp add: run_job_eq example_world_def Let_def)

text \<open>
  C1. When every stage exits with code 0 the final persisted status should be Done. In
  the scenario, where every command exits with code 0, the task tests the conversion's
  exit code the wrong way round: it persists Failed after the second stage and never
  invokes the third.
\<close>

theorem run_job_all_stages_exit_zero:
  "exit_code example_world (provision_command example_settings example_job) = 0 \<and>
   exit_code example_world (vtu_command example_settings example_job) = 0 \<and>
   raised (run_job example_settings example_job example_world) = None \<and>
   persisted 1 (final_world (run_job example_settings example_job example_world)) = Some FAILED \<and>
   effects example_world (run_job example_settings example_job example_world) =
     [Opened (get_log_file_path example_settings example_job ''stdout'') ''w'',
      Opened (get_log_file_path example_settings example_job ''stderr'') ''w'',
      Saved 1 (Some [''status'']) RUNNING,
      Called (provision_command example_settings example_job),
      Called (vtu_command example_settings example_job),
      Saved 1 (Some [''status'']) FAILED]"
  by (simp add: run_job_example raised_def persisted_def final_world_def effects_def)
     (simp add: example_world_def)

text \<open>
  The other paths of the run pipeline. A failing first stage gives Failed and invokes
  nothing more; a conversion that exits with 0 gives Failed; a conversion that exits
  with a non-zero code lets the task go on to build the third command, which never
  returns a path, so the task ends with an exception and the status stays Running.
  No execution persists Done.
\<close>

lemma run_job_provision_nonzero:
  assumes "can_create w (get_log_file_path st j ''stdout'')"
    and "can_create w (get_log_file_path st j ''stderr'')"
    and "db w (job_id j) = Some row"
    and "exit_code w (provision_command st j) \<noteq> 0"
  shows "raised (run_job st j w) = None"
    and "persisted (job_id j) (final_world (run_job st j w)) = Some FAILED"
    and "effects w (run_job st j w) =
           [Opened (get_log_file_path st j ''stdout'') ''w'',
            Opened (get_log_file_path st j ''stderr'') ''w'',
            Saved (job_id j) (Some [''status'']) RUNNING,
            Called (provision_command st j),
            Saved (job_id j) (Some [''status'']) FAILED]"
  using assms
  by (simp_all add: run_job_eq raised_def persisted_def final_world_def effects_def Let_def)

lemma run_job_conversion_zero:
  assumes "can_create w (get_log_file_path st j ''stdout'')"
    and "can_create w (get_log_file_path st j ''stderr'')"
    and "db w (job_id j) = Some row"
    and "exit_code w (provision_command st j) = 0"
    and "exit_code w (vtu_command st j) = 0"
  shows "raised (run_job st j w) = None"
    and "persisted (job_id j) (final_world (run_job st j w)) = Some FAILED"
  using assms
  by (simp_all add: run_job_eq raised_def persisted_def final_world_def Let_def)

lemma run_job_conversion_nonzero:
  assumes "can_create w (get_log_file_path st j ''stdout'')"
    and "can_create w (get_log_file_path st j ''stderr'')"
    and "db w (job_id j) = Some row"
    and "exit_code w (provision_command st j) = 0"
    and "exit_code w (vtu_command st j) \<noteq> 0"
  shows "raised (run_job st j w) = Some RecursionDepthExceeded"
    and "persisted (job_id j) (final_world (run_job st j w)) = Some RUNNING"
  using assms
  by (simp_all add: run_job_eq raised_def persisted_def final_world_def Let_def)

lemma run_job_never_done:
  "Saved u names DONE \<notin> set (effects w (run_job st j w))"
  by (simp add: run_job_effects Let_def status_defs)

subsection \<open>Terminal statuses\<close>

lemma run_setup_effects:
  "effects w (run_setup j w) =
     [Called (setup_command j),
      Saved (job_id j) None (if exit_code w (setup_command j) = 0 then ADDED else FAILED)]"
  by (simp add: run_setup_eq effects_def final_world_def Let_def)

lemma run_job_example_effects:
  "effects example_world (run_job example_settings example_job example_world) =
     [Opened (get_log_file_path example_settings example_job ''stdout'') ''w'',
      Opened (get_log_file_path example_settings example_job ''stderr'') ''w'',
      Saved 1 (Some [''status'']) RUNNING,
      Called (provision_command example_settings example_job),
      Called (vtu_command example_settings example_job),
      Saved 1 (Some [''status'']) FAILED]"
  by (simp add: run_job_example effects_def final_world_def) (simp add: example_world_def)

text \<open>
  C2. A job that is Done is claimed to keep its status whatever task runs next. Neither
  task looks at the current status: the setup task, run on the finished job, stores
  Added over Done.
\<close>

theorem run_setup_overwrites_done:
  "persisted 1 finished_world = Some DONE \<and>
   persisted 1 (final_world (run_setup finished_job finished_world)) = Some ADDED \<and>
   ADDED \<noteq> DONE"
  by (simp add: run_setup_eq persisted_def final_world_def Let_def finished_world_def
      finished_job_def example_world_def status_defs)

text \<open>
  C2, as the code has it. Within one execution of either task, a save that stores Done
  or Failed is the last effect: nothing is invoked and nothing is stored after it.
\<close>

theorem terminal_write_ends_task:
  "(\<forall>i. i < length (effects w (run_job st j w)) \<and>
        terminal_write (effects w (run_job st j w) ! i) \<longrightarrow>
        Suc i = length (effects w (run_job st j w))) \<and>
   (\<forall>i. i < length (effects w (run_setup j w)) \<and>
        terminal_write (effects w (run_setup j w) ! i) \<longrightarrow>
        Suc i = length (effects w (run_setup j w)))"
proof (intro conjI allI impI)
  fix i
  assume "i < length (effects w (run_job st j w)) \<and>
          terminal_write (effects w (run_job st j w) ! i)"
  then show "Suc i = length (effects w (run_job st j w))"
    by (auto simp: run_job_effects Let_def nth_Cons' status_defs split: if_splits)
next
  fix i
  assume "i < length (effects w (run_setup j w)) \<and>
          terminal_write (effects w (run_setup j w) ! i)"
  then show "Suc i = length (effects w (run_setup j w))"
    by (auto simp: run_setup_effects nth_Cons' split: if_splits)
qed

theorem terminal_write_ends_task_witness:
  "5 < length (effects example_world (run_job example_settings example_job example_world)) \<and>
   terminal_write (effects example_world (run_job example_settings example_job example_world) ! 5) \<and>
   Suc 5 = length (effects example_world (run_job example_settings example_job example_world))"
proof -
  have h: "5 < length (effects example_world (run_job example_settings example_job example_world)) \<and>
    terminal_write (effects example_world (run_job example_settings example_job example_world) ! 5)"
    by (simp add: run_job_example_effects status_defs)
  with terminal_write_ends_task [of example_world example_settings example_job]
  show ?thesis by blast
qed

subsection \<open>Running is committed before the provisioning command starts\<close>

text \<open>
  Opening a log file and running an external command leave the job table alone, for
  the connection and as committed: between two saves the durable store is what it was
  at the last launch.
\<close>

lemma open_w_committed:
  "open_w path w = Inr w' \<Longrightarrow> committed w' = committed w \<and> db w' = db w"
  by (auto simp: open_w_def split: if_splits)

lemma subprocess_call_committed:
  "committed (snd (subprocess_call command w)) = committed w \<and>
   db (snd (subprocess_call command w)) = db w"
  by (simp add: subprocess_call_def)

text \<open>
  The durable status of the job at each launch and at the end of the task, when the
  task starts outside any transaction; and, when the caller holds a transaction,
  nothing the task writes is committed.
\<close>

lemma run_job_launch_statuses:
  assumes "atomic_depth w = 0"
  shows "launch_statuses (job_id j) w (run_job st j w) =
     (if \<not> can_create w (get_log_file_path st j ''stdout'') then []
      else if \<not> can_create w (get_log_file_path st j ''stderr'') then []
      else if db w (job_id j) = None then []
      else if exit_code w (provision_command st j) \<noteq> 0
        then [(provision_command st j, Some RUNNING)]
      else [(provision_command st j, Some RUNNING), (vtu_command st j, Some RUNNING)])"
  using assms
  by (simp add: run_job_eq launch_statuses_def final_world_def Let_def split: option.splits)

lemma run_job_durable_status:
  assumes "atomic_depth w = 0"
  shows "durable_status (job_id j) (final_world (run_job st j w)) =
     (if \<not> can_create w (get_log_file_path st j ''stdout'') then durable_status (job_id j) w
      else if \<not> can_create w (get_log_file_path st j ''stderr'') then durable_status (job_id j) w
      else if db w (job_id j) = None then durable_status (job_id j) w
      else if exit_code w (provision_command st j) \<noteq> 0 then Some FAILED
      else if exit_code w (vtu_command st j) = 0 then Some FAILED
      else Some RUNNING)"
  using assms
  by (simp add: run_job_eq durable_status_def final_world_def Let_def split: option.splits)

lemma run_job_in_transaction:
  assumes "atomic_depth w \<noteq> 0"
  shows "committed (final_world (run_job st j w)) = committed w"
  using assms
  by (simp add: run_job_eq final_world_def Let_def split: option.splits)

text \<open>
  C3. Running is claimed to be in the durable store before the provisioning command is
  launched, in every execution. When the task is called inline by a caller that holds
  a transaction, the \<^verbatim>\<open>atomic\<close> block of the task is a savepoint: the provisioning
  command is launched, and the conversion after it, while the durable store still says
  Added, and it still says Added when the task ends.
\<close>

theorem run_job_in_caller_transaction:
  "atomic_depth transaction_world = 1 \<and>
   durable_status 1 transaction_world = Some ADDED \<and>
   Called (provision_command example_settings example_job) \<in>
     set (effects transaction_world (run_job example_settings example_job transaction_world)) \<and>
   launch_statuses 1 transaction_world (run_job example_settings example_job transaction_world) =
     [(provision_command example_settings example_job, Some ADDED),
      (vtu_command example_settings example_job, Some ADDED)] \<and>
   durable_status 1 (final_world (run_job example_settings example_job transaction_world)) =
     Some ADDED \<and>
   ADDED \<noteq> RUNNING"
proof (intro conjI)
  show "atomic_depth transaction_world = 1"
    by (simp add: transaction_world_def)
  show "durable_status 1 transaction_world = Some ADDED"
    by (simp add: durable_status_def transaction_world_def example_world_def example_job_def)
  show "Called (provision_command example_settings example_job) \<in>
     set (effects transaction_world (run_job example_settings example_job transaction_world))"
    by (simp add: run_job_effects Let_def transaction_world_def example_world_def)
  show "launch_statuses 1 transaction_world
          (run_job example_settings example_job transaction_world) =
     [(provision_command example_settings example_job, Some ADDED),
      (vtu_command example_settings example_job, Some ADDED)]"
    by (simp add: run_job_eq launch_statuses_def final_world_def Let_def transaction_world_def
        example_world_def)
       (simp add: example_job_def)
  show "durable_status 1 (final_world (run_job example_settings example_job transaction_world)) =
     Some ADDED"
    by (simp add: run_job_eq durable_status_def final_world_def Let_def transaction_world_def
        example_world_def)
       (simp add: example_job_def)
  show "ADDED \<noteq> RUNNING"
    by (simp add: status_defs)
qed

text \<open>
  C3, as the code has it. When the task starts outside any transaction, as on the
  background worker: the save of Running (of the status column alone) comes before the
  launch of the provisioning command; the provisioning command, and every command the
  task launches after it, finds the status Running in the durable store; and the
  durable status at the end of the task is Running or the terminal status the task
  stored, never Added or Queued. The last two parts say the same of the connection's
  view after every prefix of the effects that contains the launch (lemma
  \<open>run_job_persisted\<close> relates that replay to the table).
\<close>

theorem running_committed_before_provisioning:
  assumes "atomic_depth w = 0"
    and "effects w (run_job st j w) = pre @ Called (provision_command st j) # post"
  shows "Saved (job_id j) (Some [''status'']) RUNNING \<in> set pre \<and>
         (\<exists>later. launch_statuses (job_id j) w (run_job st j w) =
                    (provision_command st j, Some RUNNING) # later \<and>
                  (\<forall>command s. (command, s) \<in> set later \<longrightarrow> s = Some RUNNING)) \<and>
         (durable_status (job_id j) (final_world (run_job st j w)) = Some RUNNING \<or>
          durable_status (job_id j) (final_world (run_job st j w)) = Some FAILED \<or>
          durable_status (job_id j) (final_world (run_job st j w)) = Some DONE) \<and>
         replay_status (job_id j) pre s0 = Some RUNNING \<and>
         (\<forall>mid rest. post = mid @ rest \<longrightarrow>
            replay_status (job_id j) (pre @ Called (provision_command st j) # mid) s0 = Some RUNNING \<or>
            (rest = [] \<and>
             (replay_status (job_id j) (pre @ Called (provision_command st j) # mid) s0 = Some FAILED \<or>
              replay_status (job_id j) (pre @ Called (provision_command st j) # mid) s0 = Some DONE)))"
proof (intro conjI)
  from assms(2) show "Saved (job_id j) (Some [''status'']) RUNNING \<in> set pre"
    by (auto simp: run_job_effects Let_def Cons_eq_append_conv append_eq_Cons_conv
        split: if_splits)
  from assms(2) have launched: "can_create w (get_log_file_path st j ''stdout'')"
    "can_create w (get_log_file_path st j ''stderr'')" "db w (job_id j) \<noteq> None"
    by (auto simp: run_job_effects Let_def Cons_eq_append_conv append_eq_Cons_conv
        split: if_splits)
  with assms(1) show "\<exists>later. launch_statuses (job_id j) w (run_job st j w) =
                    (provision_command st j, Some RUNNING) # later \<and>
                  (\<forall>command s. (command, s) \<in> set later \<longrightarrow> s = Some RUNNING)"
    by (simp add: run_job_launch_statuses)
  from assms(1) launched
  show "durable_status (job_id j) (final_world (run_job st j w)) = Some RUNNING \<or>
        durable_status (job_id j) (final_world (run_job st j w)) = Some FAILED \<or>
        durable_status (job_id j) (final_world (run_job st j w)) = Some DONE"
    by (auto simp: run_job_durable_status)
  from assms(2) show "replay_status (job_id j) pre s0 = Some RUNNING"
    by (auto simp: run_job_effects Let_def Cons_eq_append_conv append_eq_Cons_conv
        split: if_splits)
  from assms(2) show "\<forall>mid rest. post = mid @ rest \<longrightarrow>
            replay_status (job_id j) (pre @ Called (provision_command st j) # mid) s0 = Some RUNNING \<or>
            (rest = [] \<and>
             (replay_status (job_id j) (pre @ Called (provision_command st j) # mid) s0 = Some FAILED \<or>
              replay_status (job_id j) (pre @ Called (provision_command st j) # mid) s0 = Some DONE))"
    by (auto simp: run_job_effects Let_def Cons_eq_append_conv append_eq_Cons_conv
        split: if_splits)
qed

theorem running_committed_before_provisioning_witness:
  "atomic_depth example_world = 0 \<and>
   effects example_world (run_job example_settings example_job example_world) =
     [Opened (get_log_file_path example_settings example_job ''stdout'') ''w'',
      Opened (get_log_file_path example_settings example_job ''stderr'') ''w'',
      Saved 1 (Some [''status'']) RUNNING] @
     Called (provision_command example_settings example_job) #
     [Called (vtu_command example_settings example_job), Saved 1 (Some [''status'']) FAILED] \<and>
   durable_status 1 example_world = Some ADDED \<and>
   launch_statuses 1 example_world (run_job example_settings example_job example_world) =
     [(provision_command example_settings example_job, Some RUNNING),
      (vtu_command example_settings example_job, Some RUNNING)] \<and>
   durable_status 1 (final_world (run_job example_settings example_job example_world)) =
     Some FAILED"
proof -
  have a: "atomic_depth example_world = 0"
    by (simp add: example_world_def)
  have h: "effects example_world (run_job example_settings example_job example_world) =
     [Opened (get_log_file_path example_settings example_job ''stdout'') ''w'',
      Opened (get_log_file_path example_settings example_job ''stderr'') ''w'',
      Saved 1 (Some [''status'']) RUNNING] @
     Called (provision_command example_settings example_job) #
     [Called (vtu_command example_settings example_job), Saved 1 (Some [''status'']) FAILED]"
    by (simp add: run_job_example_effects)
  have b: "durable_status 1 example_world = Some ADDED"
    by (simp add: durable_status_def example_world_def example_job_def)
  have c: "launch_statuses 1 example_world
             (run_job example_settings example_job example_world) =
     [(provision_command example_settings example_job, Some RUNNING),
      (vtu_command example_settings example_job, Some RUNNING)]"
    by (simp add: run_job_example launch_statuses_def final_world_def)
       (simp add: example_world_def)
  have d: "durable_status 1 (final_world (run_job example_settings example_job example_world)) =
     Some FAILED"
    by (simp add: run_job_example durable_status_def final_world_def)
  from running_committed_before_provisioning [OF a h, of "Some ADDED"] a h b c d
  show ?thesis by (simp only: example_job_id)
qed

subsection \<open>The setup pipeline\<close>

text \<open>
  When \<^verbatim>\<open>X\<close> does not contain \<^verbatim>\<open>.stl\<close>, replacing \<^verbatim>\<open>.stl\<close> in \<^verbatim>\<open>X.stl\<close>
  changes the extension and nothing else.
\<close>

lemma replace_no_match:
  assumes "s \<noteq> []" "old \<noteq> []" "take (length old) s \<noteq> old"
  shows "replace s old new = hd s # replace (tl s) old new"
  using assms by (subst replace.simps) simp

lemma stl_not_at_front:
  assumes "\<And>pre post. x # xs \<noteq> pre @ ''.stl'' @ post"
  shows "take (length ''.stl'') (x # xs @ ''.stl'') \<noteq> ''.stl''"
proof
  assume h: "take (length ''.stl'') (x # xs @ ''.stl'') = ''.stl''"
  show False
  proof (cases xs)
    case Nil with h show False by simp
  next
    case (Cons a as)
    show False
    proof (cases as)
      case Nil with h Cons show False by simp
    next
      case (Cons b bs)
      note Cons2 = this
      show False
      proof (cases bs)
        case Nil with h \<open>xs = a # as\<close> Cons2 show False by simp
      next
        case (Cons c cs)
        with h \<open>xs = a # as\<close> Cons2 have "x # xs = [] @ ''.stl'' @ cs" by simp
        with assms show False by blast
      qed
    qed
  qed
qed

lemma replace_stl_extension:
  assumes "\<And>pre post. X \<noteq> pre @ ''.stl'' @ post"
  shows "replace (X @ ''.stl'') ''.stl'' new = X @ new"
  using assms
proof (induction X)
  case Nil
  show ?case by (simp add: replace.simps)
next
  case (Cons x xs)
  have tail: "\<And>pre post. xs \<noteq> pre @ ''.stl'' @ post"
  proof
    fix pre post assume "xs = pre @ ''.stl'' @ post"
    then have "x # xs = (x # pre) @ ''.stl'' @ post" by simp
    with Cons.prems show False by blast
  qed
  have "replace (x # xs @ ''.stl'') ''.stl'' new =
          hd (x # xs @ ''.stl'') # replace (tl (x # xs @ ''.stl'')) ''.stl'' new"
  proof (rule replace_no_match)
    show "take (length ''.stl'') (x # xs @ ''.stl'') \<noteq> ''.stl''"
      using Cons.prems by (rule stl_not_at_front)
  qed simp_all
  with Cons.IH [OF tail] show ?case by simp
qed

text \<open>
  C4. For a geometry file \<^verbatim>\<open>X.stl\<close> the configuration file should be \<^verbatim>\<open>X.xml\<close> and
  the input file \<^verbatim>\<open>X.gmy\<close>, also when \<^verbatim>\<open>X\<close> contains \<^verbatim>\<open>.stl\<close>. For
  \<^verbatim>\<open>model.stl.v2.stl\<close> the task assigns \<^verbatim>\<open>model.xml.v2.xml\<close> and
  \<^verbatim>\<open>model.gmy.v2.gmy\<close>: \<^verbatim>\<open>replace\<close> rewrites every occurrence, not the extension.
\<close>

theorem run_setup_dotted_stl_name:
  "stl_file dotted_job = ''model.stl.v2'' @ ''.stl'' \<and>
   configuration_file (final_job (run_setup dotted_job example_world)) = ''model.xml.v2.xml'' \<and>
   input_file (final_job (run_setup dotted_job example_world)) = ''model.gmy.v2.gmy'' \<and>
   ''model.xml.v2.xml'' \<noteq> ''model.stl.v2'' @ ''.xml'' \<and>
   ''model.gmy.v2.gmy'' \<noteq> ''model.stl.v2'' @ ''.gmy''"
  by (simp add: run_setup_eq final_job_def Let_def dotted_job_def example_job_def
      example_world_def replace.simps)

text \<open>
  C5. When the setup tool exits with code 0 the task leaves the status Added and
  assigns the configuration file and the input file from the name of the geometry file;
  with any other exit code it leaves the status Failed and every artifact field as it
  was. In both cases the job is stored as the task left it. (No assumption on the
  status the job had before is needed.)
\<close>

theorem run_setup_outcomes:
  "(exit_code w (setup_command j) = 0 \<longrightarrow>
      raised (run_setup j w) = None \<and>
      status (final_job (run_setup j w)) = ADDED \<and>
      configuration_file (final_job (run_setup j w)) = replace (stl_file j) ''.stl'' ''.xml'' \<and>
      input_file (final_job (run_setup j w)) = replace (stl_file j) ''.stl'' ''.gmy'' \<and>
      stl_file (final_job (run_setup j w)) = stl_file j \<and>
      profile_file (final_job (run_setup j w)) = profile_file j \<and>
      output_file (final_job (run_setup j w)) = output_file j \<and>
      db (final_world (run_setup j w)) (job_id j) = Some (final_job (run_setup j w))) \<and>
   (exit_code w (setup_command j) \<noteq> 0 \<longrightarrow>
      raised (run_setup j w) = None \<and>
      status (final_job (run_setup j w)) = FAILED \<and>
      configuration_file (final_job (run_setup j w)) = configuration_file j \<and>
      input_file (final_job (run_setup j w)) = input_file j \<and>
      stl_file (final_job (run_setup j w)) = stl_file j \<and>
      profile_file (final_job (run_setup j w)) = profile_file j \<and>
      output_file (final_job (run_setup j w)) = output_file j \<and>
      db (final_world (run_setup j w)) (job_id j) = Some (final_job (run_setup j w)))"
  by (simp add: run_setup_eq raised_def final_job_def final_world_def Let_def)

theorem run_setup_outcomes_witness:
  "status example_job = ADDED \<and>
   stl_file example_job = ''foo.stl'' \<and>
   profile_file example_job = ''foo.pr2'' \<and>
   exit_code example_world (setup_command example_job) = 0 \<and>
   status (final_job (run_setup example_job example_world)) = ADDED \<and>
   configuration_file (final_job (run_setup example_job example_world)) = ''foo.xml'' \<and>
   input_file (final_job (run_setup example_job example_world)) = ''foo.gmy'' \<and>
   persisted 1 (final_world (run_setup example_job example_world)) = Some ADDED \<and>
   exit_code failing_world (setup_command example_job) \<noteq> 0 \<and>
   status (final_job (run_setup example_job failing_world)) = FAILED \<and>
   configuration_file (final_job (run_setup example_job failing_world)) = [] \<and>
   input_file (final_job (run_setup example_job failing_world)) = [] \<and>
   stl_file (final_job (run_setup example_job failing_world)) = ''foo.stl'' \<and>
   profile_file (final_job (run_setup example_job failing_world)) = ''foo.pr2'' \<and>
   output_file (final_job (run_setup example_job failing_world)) = [] \<and>
   persisted 1 (final_world (run_setup example_job failing_world)) = Some FAILED"
proof -
  have a: "exit_code example_world (setup_command example_job) = 0"
    by (simp add: example_world_def)
  have b: "exit_code failing_world (setup_command example_job) \<noteq> 0"
    by (simp add: failing_world_def)
  have c: "replace ''foo.stl'' ''.stl'' ''.xml'' = ''foo.xml''"
    "replace ''foo.stl'' ''.stl'' ''.gmy'' = ''foo.gmy''"
    by (simp_all add: replace.simps)
  have d: "stl_file example_job = ''foo.stl''" "profile_file example_job = ''foo.pr2''"
    "configuration_file example_job = []" "input_file example_job = []"
    "output_file example_job = []" "status example_job = ADDED"
    by (simp_all add: example_job_def)
  from run_setup_outcomes [of example_world example_job]
    run_setup_outcomes [of failing_world example_job] a b
  show ?thesis by (simp add: c d persisted_def)
qed

subsection \<open>The log cache\<close>

text \<open>
  C6. On a cache hit \<^verbatim>\<open>get_output\<close> returns the cached content and its only effect
  is the cache lookup: no file is opened. On a miss, with the log file present, it
  returns the whole content of the file and stores it under the key with a timeout of
  5 seconds when the status is neither Done nor Failed, and of 5000 seconds when it is
  Done or Failed.
\<close>

theorem get_output_hit_and_miss:
  "(cache w (py_format ''{}:log:{}'' [uuid_hex (job_id self), log_type]) = Some (cached, t) \<longrightarrow>
      get_output st self log_type w =
        (Inr cached,
         w\<lparr>trace := trace w @
              [CacheGet (py_format ''{}:log:{}'' [uuid_hex (job_id self), log_type])]\<rparr>)) \<and>
   (cache w (py_format ''{}:log:{}'' [uuid_hex (job_id self), log_type]) = None \<and>
    files w (get_log_file_path st self log_type) = Some content \<longrightarrow>
      get_output st self log_type w =
        (Inr content,
         w\<lparr>cache := (cache w)(py_format ''{}:log:{}'' [uuid_hex (job_id self), log_type] \<mapsto>
                (content, if status self = DONE \<or> status self = FAILED then 5000 else 5)),
           trace := trace w @
              [CacheGet (py_format ''{}:log:{}'' [uuid_hex (job_id self), log_type]),
               Opened (get_log_file_path st self log_type) ''r'',
               CacheSet (py_format ''{}:log:{}'' [uuid_hex (job_id self), log_type]) content
                 (if status self = DONE \<or> status self = FAILED then 5000 else 5)]\<rparr>))"
  by (simp add: get_output_def cache_get_def open_read_def cache_set_def Let_def
      del: py_format.simps)

theorem get_output_hit_and_miss_witness:
  "cache cached_world (py_format ''{}:log:{}'' [uuid_hex (job_id example_job), ''stdout'']) = Some ([], 5) \<and>
   files cached_world (get_log_file_path example_settings example_job ''stdout'') = None \<and>
   fst (get_output example_settings example_job ''stdout'' cached_world) = Inr [] \<and>
   cache logged_world (py_format ''{}:log:{}'' [uuid_hex (job_id example_job), ''stdout'']) = None \<and>
   files logged_world (get_log_file_path example_settings example_job ''stdout'') = Some ''started'' \<and>
   fst (get_output example_settings example_job ''stdout'' logged_world) = Inr ''started'' \<and>
   cache (snd (get_output example_settings example_job ''stdout'' logged_world))
     (py_format ''{}:log:{}'' [uuid_hex (job_id example_job), ''stdout'']) = Some (''started'', 5) \<and>
   cache (snd (get_output example_settings finished_job ''stdout'' logged_world))
     (py_format ''{}:log:{}'' [uuid_hex (job_id finished_job), ''stdout'']) = Some (''started'', 5000)"
proof -
  have hit: "cache cached_world (py_format ''{}:log:{}'' [uuid_hex (job_id example_job), ''stdout'']) = Some ([], 5)"
    "files cached_world (get_log_file_path example_settings example_job ''stdout'') = None"
    by (simp_all add: cached_world_def example_world_def del: py_format.simps)
  have miss: "cache logged_world (py_format ''{}:log:{}'' [uuid_hex (job_id example_job), ''stdout'']) = None"
    "files logged_world (get_log_file_path example_settings example_job ''stdout'') = Some ''started''"
    by (simp_all add: logged_world_def example_world_def del: py_format.simps)
  have fin: "job_id finished_job = job_id example_job"
    "get_log_file_path example_settings finished_job ''stdout'' =
       get_log_file_path example_settings example_job ''stdout''"
    "status finished_job = DONE"
    by (simp_all add: finished_job_def)
  have ex: "status example_job = ADDED"
    by (simp add: example_job_def)
  from get_output_hit_and_miss [of cached_world example_job "''stdout''" "[]" 5 example_settings]
    get_output_hit_and_miss [of logged_world example_job "''stdout''" _ _ example_settings "''started''"]
    get_output_hit_and_miss [of logged_world finished_job "''stdout''" _ _ example_settings "''started''"]
    hit miss fin ex
  show ?thesis by (simp add: status_defs del: py_format.simps)
qed





subsection \<open>How a status is saved\<close>





end
